theory Spec2Isabelle
  imports Complex_Main "HOL-Library.Word" "HOL-Library.Log_Nat"
begin

unbundle bit_operations_syntax

section \<open>Tracker events of sc2reader (events/tracker.py)\<close>

text \<open>
  The module builds one event object per tracker record. Every constructor receives
  \<open>frames\<close> (a Python integer), \<open>data\<close> (the fixed-shape tuple of primitive fields the
  replay reader decoded for this record kind) and \<open>build\<close> (the game build number).
  Python integers are unbounded, so they are \<open>int\<close> here; \<open>data\<close> is a tuple whose
  component \<open>dk\<close> is the source's \<open>data[k]\<close>; a byte string is an \<open>8 word list\<close> and a
  Python \<open>str\<close> is the list of its code points. Attributes that the constructors set to
  \<open>None\<close> and that a later pass fills in (\<open>unit\<close>, \<open>player\<close>, ...) are options over the
  opaque types of the objects they will refer to.
\<close>

subsection \<open>Exceptions\<close>

text \<open>
  \<open>IndexError\<close> is what a Python list raises on an out-of-range subscript,
  \<open>UnicodeDecodeError\<close> what \<open>bytes.decode("utf8")\<close> raises on ill-formed input and
  \<open>OverflowError\<close> what the conversion of too large an \<open>int\<close> to \<open>float\<close> raises; these
  are the exceptions the constructors below can raise. \<open>MalformedRecord\<close> is the error kind the
  specification names; no statement of tracker.py raises it.
\<close>

datatype error = IndexError | UnicodeDecodeError | OverflowError | MalformedRecord

typedecl Unit
typedecl Player

type_synonym bytes = "8 word list"
type_synonym str = "nat list"

subsection \<open>Python primitives used by the module\<close>

text \<open>\<open>clamp = functools.partial(max, 0)\<close>\<close>

definition clamp :: "int \<Rightarrow> int" where
  "clamp v = max 0 v"

text \<open>\<open>xs[i]\<close> for a non-negative literal index \<open>i\<close>.\<close>

definition getitem :: "'a list \<Rightarrow> nat \<Rightarrow> error + 'a" where
  "getitem xs i = (if i < length xs then Inr (xs ! i) else Inl IndexError)"

text \<open>Sequencing of statements that may raise: the first exception ends the constructor.\<close>

definition bind_err :: "error + 'a \<Rightarrow> ('a \<Rightarrow> error + 'b) \<Rightarrow> error + 'b" where
  "bind_err m f = (case m of Inl e \<Rightarrow> Inl e | Inr v \<Rightarrow> f v)"

text \<open>
  \<open>b.decode("utf8")\<close> in strict mode: shortest-form UTF-8 only, no surrogates, nothing above
  U+10FFFF; the result is the sequence of code points.
\<close>

definition is_cont :: "8 word \<Rightarrow> bool" where
  "is_cont b = (0x80 \<le> b \<and> b \<le> 0xBF)"

definition cont_bits :: "8 word \<Rightarrow> nat" where
  "cont_bits b = unat b - 0x80"

fun utf8_decode :: "bytes \<Rightarrow> error + str" where
  "utf8_decode [] = Inr []"
| "utf8_decode (b0 # bs) =
     (if b0 \<le> 0x7F then
        bind_err (utf8_decode bs) (\<lambda>cs. Inr (unat b0 # cs))
      else if 0xC2 \<le> b0 \<and> b0 \<le> 0xDF then
        (case bs of
           b1 # r \<Rightarrow>
             if is_cont b1 then
               bind_err (utf8_decode r)
                 (\<lambda>cs. Inr (((unat b0 - 0xC0) * 64 + cont_bits b1) # cs))
             else Inl UnicodeDecodeError
         | _ \<Rightarrow> Inl UnicodeDecodeError)
      else if 0xE0 \<le> b0 \<and> b0 \<le> 0xEF then
        (case bs of
           b1 # b2 # r \<Rightarrow>
             if (if b0 = 0xE0 then 0xA0 \<le> b1 \<and> b1 \<le> 0xBF
                 else if b0 = 0xED then 0x80 \<le> b1 \<and> b1 \<le> 0x9F
                 else is_cont b1) \<and> is_cont b2 then
               bind_err (utf8_decode r)
                 (\<lambda>cs. Inr (((unat b0 - 0xE0) * 4096 + cont_bits b1 * 64 + cont_bits b2) # cs))
             else Inl UnicodeDecodeError
         | _ \<Rightarrow> Inl UnicodeDecodeError)
      else if 0xF0 \<le> b0 \<and> b0 \<le> 0xF4 then
        (case bs of
           b1 # b2 # b3 # r \<Rightarrow>
             if (if b0 = 0xF0 then 0x90 \<le> b1 \<and> b1 \<le> 0xBF
                 else if b0 = 0xF4 then 0x80 \<le> b1 \<and> b1 \<le> 0x8F
                 else is_cont b1) \<and> is_cont b2 \<and> is_cont b3 then
               bind_err (utf8_decode r)
                 (\<lambda>cs. Inr (((unat b0 - 0xF0) * 262144 + cont_bits b1 * 4096
                              + cont_bits b2 * 64 + cont_bits b3) # cs))
             else Inl UnicodeDecodeError
         | _ \<Rightarrow> Inl UnicodeDecodeError)
      else Inl UnicodeDecodeError)"

subsection \<open>Binary64 arithmetic of \<open>frame / 22.4\<close>\<close>

text \<open>
  Python's \<open>/\<close> on an \<open>int\<close> and a \<open>float\<close> converts the integer to a double and divides
  in IEEE 754 binary64: the exact quotient rounded to the nearest value with a 53-bit
  significand, ties to even. Values of doubles are rationals. \<open>f64_round\<close> is that rounding
  with the exponent left unbounded: \<open>f64_exponent q\<close> is the \<open>e\<close> with
  \<open>2^e \<le> |q| < 2^(e+1)\<close> and the grid around \<open>q\<close> has spacing \<open>2^(e-52)\<close>. The module
  divides a frame counter below \<open>2^32\<close> by 22.4 and a clamped stat by 4096.0, so a non-zero
  quotient is at least \<open>2^-12\<close>, far from the subnormals; overflow can only come from the
  conversion of the integer and is checked where it can happen (\<open>py_truediv\<close> below).
\<close>

definition f64_exponent :: "rat \<Rightarrow> int" where
  "f64_exponent q =
     (let (a, b) = quotient_of \<bar>q\<bar>;
          k = bitlen a - bitlen b
      in if power_int 2 k \<le> \<bar>q\<bar> then k else k - 1)"

definition round_half_even :: "rat \<Rightarrow> int" where
  "round_half_even m =
     (let f = \<lfloor>m\<rfloor>; r = m - of_int f
      in if r < 1 / 2 then f
         else if 1 / 2 < r then f + 1
         else if even f then f else f + 1)"

definition f64_round :: "rat \<Rightarrow> rat" where
  "f64_round q =
     (if q = 0 then 0
      else let u = power_int 2 (f64_exponent q - 52)
           in of_int (round_half_even (q / u)) * u)"

text \<open>The literal \<open>22.4\<close>, the conversion of an \<open>int\<close>, float division and \<open>int(...)\<close>.\<close>

definition f64_22_4 :: rat where
  "f64_22_4 = f64_round (224 / 10)"

definition f64_of_int :: "int \<Rightarrow> rat" where
  "f64_of_int n = f64_round (of_int n)"

definition f64_div :: "rat \<Rightarrow> rat \<Rightarrow> rat" where
  "f64_div a b = f64_round (a / b)"

definition py_int :: "rat \<Rightarrow> int" where
  "py_int v = (if 0 \<le> v then \<lfloor>v\<rfloor> else \<lceil>v\<rceil>)"

subsection \<open>TrackerEvent\<close>

record TrackerEvent =
  frame :: int
  second :: int
  name :: string

text \<open>
  \<open>TrackerEvent.__init__(self, frames)\<close>; \<open>cls\<close> is \<open>self.__class__.__name__\<close>, the name
  of the class being instantiated.
\<close>

definition TrackerEvent_init :: "string \<Rightarrow> int \<Rightarrow> TrackerEvent" where
  "TrackerEvent_init cls frames =
     (let fr = frames mod 2 ^ 32
      in \<lparr> frame = fr,
           second = py_int (f64_div (f64_of_int fr) f64_22_4),
           name = cls \<rparr>)"

subsection \<open>Unit events\<close>

text \<open>
  Every unit event composes the unit id in place as
  \<open>self.unit_id_index << 18 | self.unit_id_recycle\<close>; \<open><<\<close> binds tighter than \<open>|\<close>, and
  both act on unbounded two's complement integers, as \<open>push_bit\<close> and \<open>OR\<close> on \<open>int\<close> do.
  After the fields are stored, \<open>if build < 27950\<close> rescales \<open>x\<close> and \<open>y\<close> and stores the
  location again.
\<close>

record UnitBornEvent = TrackerEvent +
  born_unit_id_index :: int
  born_unit_id_recycle :: int
  born_unit_id :: int
  born_unit :: "Unit option"
  born_unit_type_name :: str
  born_control_pid :: int
  born_upkeep_pid :: int
  born_unit_upkeeper :: "Player option"
  born_unit_controller :: "Player option"
  born_x :: int
  born_y :: int
  born_location :: "int \<times> int"

fun UnitBornEvent_init ::
  "int \<Rightarrow> int \<times> int \<times> bytes \<times> int \<times> int \<times> int \<times> int \<Rightarrow> int \<Rightarrow> error + UnitBornEvent" where
  "UnitBornEvent_init frames (d0, d1, d2, d3, d4, d5, d6) build =
     (let base = TrackerEvent_init ''UnitBornEvent'' frames
      in bind_err (utf8_decode d2) (\<lambda>type_name.
           let e = \<lparr> frame = frame base, second = second base, name = name base,
                     born_unit_id_index = d0,
                     born_unit_id_recycle = d1,
                     born_unit_id = push_bit 18 d0 OR d1,
                     born_unit = None,
                     born_unit_type_name = type_name,
                     born_control_pid = d3,
                     born_upkeep_pid = d4,
                     born_unit_upkeeper = None,
                     born_unit_controller = None,
                     born_x = d5,
                     born_y = d6,
                     born_location = (d5, d6) \<rparr>
           in if build < 27950 then
                let e1 = e\<lparr>born_x := born_x e * 4\<rparr>;
                    e2 = e1\<lparr>born_y := born_y e1 * 4\<rparr>
                in Inr (e2\<lparr>born_location := (born_x e2, born_y e2)\<rparr>)
              else Inr e))"

text \<open>The properties \<open>UnitBornEvent.player\<close> and \<open>UnitBornEvent.pid\<close>.\<close>

definition UnitBornEvent_player :: "UnitBornEvent \<Rightarrow> Player option" where
  "UnitBornEvent_player e = born_unit_controller e"

definition UnitBornEvent_pid :: "UnitBornEvent \<Rightarrow> int" where
  "UnitBornEvent_pid e = born_control_pid e"

text \<open>
  \<open>UnitDiedEvent\<close>: \<open>data[2]\<close> is the killing player's id, \<open>None\<close> when not available
  (it is only stored). The killing-unit attributes start as \<open>None\<close>; from build 27950 on
  \<open>data[5]\<close> and \<open>data[6]\<close> are read, and \<open>if self.killing_unit_index:\<close> is Python's
  truth test of an integer, that is \<open>\<noteq> 0\<close>.
\<close>

record UnitDiedEvent = TrackerEvent +
  died_unit_id_index :: int
  died_unit_id_recycle :: int
  died_unit_id :: int
  died_unit :: "Unit option"
  died_killer_pid :: "int option"
  died_killer :: "Player option"
  died_killing_player_id :: "int option"
  died_killing_player :: "Player option"
  died_x :: int
  died_y :: int
  died_location :: "int \<times> int"
  died_killing_unit_index :: "int option"
  died_killing_unit_recycle :: "int option"
  died_killing_unit_id :: "int option"
  died_killing_unit :: "Unit option"

fun UnitDiedEvent_init ::
  "int \<Rightarrow> int \<times> int \<times> int option \<times> int \<times> int \<times> int \<times> int \<Rightarrow> int \<Rightarrow> UnitDiedEvent" where
  "UnitDiedEvent_init frames (d0, d1, d2, d3, d4, d5, d6) build =
     (let base = TrackerEvent_init ''UnitDiedEvent'' frames;
          e = \<lparr> frame = frame base, second = second base, name = name base,
                died_unit_id_index = d0,
                died_unit_id_recycle = d1,
                died_unit_id = push_bit 18 d0 OR d1,
                died_unit = None,
                died_killer_pid = d2,
                died_killer = None,
                died_killing_player_id = d2,
                died_killing_player = None,
                died_x = d3,
                died_y = d4,
                died_location = (d3, d4),
                died_killing_unit_index = None,
                died_killing_unit_recycle = None,
                died_killing_unit_id = None,
                died_killing_unit = None \<rparr>
      in if build < 27950 then
           let e1 = e\<lparr>died_x := died_x e * 4\<rparr>;
               e2 = e1\<lparr>died_y := died_y e1 * 4\<rparr>
           in e2\<lparr>died_location := (died_x e2, died_y e2)\<rparr>
         else
           let e1 = e\<lparr>died_killing_unit_index := Some d5\<rparr>;
               e2 = e1\<lparr>died_killing_unit_recycle := Some d6\<rparr>
           in if d5 \<noteq> 0 then e2\<lparr>died_killing_unit_id := Some (push_bit 18 d5 OR d6)\<rparr>
              else e2)"

record UnitOwnerChangeEvent = TrackerEvent +
  owner_unit_id_index :: int
  owner_unit_id_recycle :: int
  owner_unit_id :: int
  owner_unit :: "Unit option"
  owner_control_pid :: int
  owner_upkeep_pid :: int
  owner_unit_upkeeper :: "Player option"
  owner_unit_controller :: "Player option"

fun UnitOwnerChangeEvent_init ::
  "int \<Rightarrow> int \<times> int \<times> int \<times> int \<Rightarrow> int \<Rightarrow> UnitOwnerChangeEvent" where
  "UnitOwnerChangeEvent_init frames (d0, d1, d2, d3) build =
     (let base = TrackerEvent_init ''UnitOwnerChangeEvent'' frames
      in \<lparr> frame = frame base, second = second base, name = name base,
           owner_unit_id_index = d0,
           owner_unit_id_recycle = d1,
           owner_unit_id = push_bit 18 d0 OR d1,
           owner_unit = None,
           owner_control_pid = d2,
           owner_upkeep_pid = d3,
           owner_unit_upkeeper = None,
           owner_unit_controller = None \<rparr>)"

record UnitTypeChangeEvent = TrackerEvent +
  change_unit_id_index :: int
  change_unit_id_recycle :: int
  change_unit_id :: int
  change_unit :: "Unit option"
  change_unit_type_name :: str

fun UnitTypeChangeEvent_init ::
  "int \<Rightarrow> int \<times> int \<times> bytes \<Rightarrow> int \<Rightarrow> error + UnitTypeChangeEvent" where
  "UnitTypeChangeEvent_init frames (d0, d1, d2) build =
     (let base = TrackerEvent_init ''UnitTypeChangeEvent'' frames
      in bind_err (utf8_decode d2) (\<lambda>type_name.
           Inr \<lparr> frame = frame base, second = second base, name = name base,
                 change_unit_id_index = d0,
                 change_unit_id_recycle = d1,
                 change_unit_id = push_bit 18 d0 OR d1,
                 change_unit = None,
                 change_unit_type_name = type_name \<rparr>))"

record UnitInitEvent = TrackerEvent +
  init_unit_id_index :: int
  init_unit_id_recycle :: int
  init_unit_id :: int
  init_unit :: "Unit option"
  init_unit_type_name :: str
  init_control_pid :: int
  init_upkeep_pid :: int
  init_unit_upkeeper :: "Player option"
  init_unit_controller :: "Player option"
  init_x :: int
  init_y :: int
  init_location :: "int \<times> int"

fun UnitInitEvent_init ::
  "int \<Rightarrow> int \<times> int \<times> bytes \<times> int \<times> int \<times> int \<times> int \<Rightarrow> int \<Rightarrow> error + UnitInitEvent" where
  "UnitInitEvent_init frames (d0, d1, d2, d3, d4, d5, d6) build =
     (let base = TrackerEvent_init ''UnitInitEvent'' frames
      in bind_err (utf8_decode d2) (\<lambda>type_name.
           let e = \<lparr> frame = frame base, second = second base, name = name base,
                     init_unit_id_index = d0,
                     init_unit_id_recycle = d1,
                     init_unit_id = push_bit 18 d0 OR d1,
                     init_unit = None,
                     init_unit_type_name = type_name,
                     init_control_pid = d3,
                     init_upkeep_pid = d4,
                     init_unit_upkeeper = None,
                     init_unit_controller = None,
                     init_x = d5,
                     init_y = d6,
                     init_location = (d5, d6) \<rparr>
           in if build < 27950 then
                let e1 = e\<lparr>init_x := init_x e * 4\<rparr>;
                    e2 = e1\<lparr>init_y := init_y e1 * 4\<rparr>
                in Inr (e2\<lparr>init_location := (init_x e2, init_y e2)\<rparr>)
              else Inr e))"

text \<open>The properties \<open>UnitInitEvent.player\<close> and \<open>UnitInitEvent.pid\<close>.\<close>

definition UnitInitEvent_player :: "UnitInitEvent \<Rightarrow> Player option" where
  "UnitInitEvent_player e = init_unit_upkeeper e"

definition UnitInitEvent_pid :: "UnitInitEvent \<Rightarrow> int" where
  "UnitInitEvent_pid e = init_upkeep_pid e"

record UnitDoneEvent = TrackerEvent +
  done_unit_id_index :: int
  done_unit_id_recycle :: int
  done_unit_id :: int
  done_unit :: "Unit option"

fun UnitDoneEvent_init :: "int \<Rightarrow> int \<times> int \<Rightarrow> int \<Rightarrow> UnitDoneEvent" where
  "UnitDoneEvent_init frames (d0, d1) build =
     (let base = TrackerEvent_init ''UnitDoneEvent'' frames
      in \<lparr> frame = frame base, second = second base, name = name base,
           done_unit_id_index = d0,
           done_unit_id_recycle = d1,
           done_unit_id = push_bit 18 d0 OR d1,
           done_unit = None \<rparr>)"

text \<open>
  Modelled from the spec: the inverse of the unit id composition, \<open>decode(id) -> (id >> 18,
  id & 0x3FFFF)\<close> of section 4.1. tracker.py only composes unit ids and has no function
  that splits one.
\<close>

definition decode :: "int \<Rightarrow> int \<times> int" where
  "decode uid = (drop_bit 18 uid, uid AND 0x3FFFF)"

subsection \<open>PlayerStatsEvent\<close>

text \<open>
  \<open>int / float\<close>: the integer is converted to the nearest double, which raises
  \<open>OverflowError\<close> when that is beyond the largest finite double, and the quotient is
  rounded. The divisor is the literal \<open>4096.0\<close>, so no division by zero occurs.
\<close>

definition py_truediv :: "int \<Rightarrow> rat \<Rightarrow> error + rat" where
  "py_truediv n d =
     (if 2 ^ 1024 \<le> \<bar>f64_of_int n\<bar> then Inl OverflowError
      else Inr (f64_div (f64_of_int n) d))"

text \<open>\<open>clamp(self.stats[i]) if build >= 26490 else None\<close>, once the guard holds.\<close>

definition clamp_some :: "error + int \<Rightarrow> error + int option" where
  "clamp_some m = bind_err m (\<lambda>v. Inr (Some (clamp v)))"

text \<open>
  \<open>data[0]\<close> is the player id and \<open>data[1]\<close> the list of stats, which the source reads
  back as \<open>self.stats\<close>; \<open>sk\<close> is \<open>self.stats[k]\<close>. The statements run in
  the order of the source, so the first subscript out of range raises. The derived totals
  are sums of the clamped attributes already stored.
\<close>

record PlayerStatsEvent = TrackerEvent +
  stats_pid :: int
  stats_player :: "Player option"
  stats :: "int list"
  minerals_current :: int
  vespene_current :: int
  minerals_collection_rate :: int
  vespene_collection_rate :: int
  workers_active_count :: int
  minerals_used_in_progress_army :: int
  minerals_used_in_progress_economy :: int
  minerals_used_in_progress_technology :: int
  minerals_used_in_progress :: int
  vespene_used_in_progress_army :: int
  vespene_used_in_progress_economy :: int
  vespene_used_in_progress_technology :: int
  vespene_used_in_progress :: int
  resources_used_in_progress :: int
  minerals_used_current_army :: int
  minerals_used_current_economy :: int
  minerals_used_current_technology :: int
  minerals_used_current :: int
  vespene_used_current_army :: int
  vespene_used_current_economy :: int
  vespene_used_current_technology :: int
  vespene_used_current :: int
  resources_used_current :: int
  minerals_lost_army :: int
  minerals_lost_economy :: int
  minerals_lost_technology :: int
  minerals_lost :: int
  vespene_lost_army :: int
  vespene_lost_economy :: int
  vespene_lost_technology :: int
  vespene_lost :: int
  resources_lost :: int
  minerals_killed_army :: int
  minerals_killed_economy :: int
  minerals_killed_technology :: int
  minerals_killed :: int
  vespene_killed_army :: int
  vespene_killed_economy :: int
  vespene_killed_technology :: int
  vespene_killed :: int
  resources_killed :: int
  food_used :: rat
  food_made :: rat
  minerals_used_active_forces :: int
  vespene_used_active_forces :: int
  ff_minerals_lost_army :: "int option"
  ff_minerals_lost_economy :: "int option"
  ff_minerals_lost_technology :: "int option"
  ff_vespene_lost_army :: "int option"
  ff_vespene_lost_economy :: "int option"
  ff_vespene_lost_technology :: "int option"

fun PlayerStatsEvent_init :: "int \<Rightarrow> int \<times> int list \<Rightarrow> int \<Rightarrow> error + PlayerStatsEvent" where
  "PlayerStatsEvent_init frames (d0, d1) build =
     (let base = TrackerEvent_init ''PlayerStatsEvent'' frames
      in
      bind_err (getitem d1 0) (\<lambda>s0.
      bind_err (getitem d1 1) (\<lambda>s1.
      bind_err (getitem d1 2) (\<lambda>s2.
      bind_err (getitem d1 3) (\<lambda>s3.
      bind_err (getitem d1 4) (\<lambda>s4.
      bind_err (getitem d1 5) (\<lambda>s5.
      bind_err (getitem d1 6) (\<lambda>s6.
      bind_err (getitem d1 7) (\<lambda>s7.
      bind_err (getitem d1 8) (\<lambda>s8.
      bind_err (getitem d1 9) (\<lambda>s9.
      bind_err (getitem d1 10) (\<lambda>s10.
      bind_err (getitem d1 11) (\<lambda>s11.
      bind_err (getitem d1 12) (\<lambda>s12.
      bind_err (getitem d1 13) (\<lambda>s13.
      bind_err (getitem d1 14) (\<lambda>s14.
      bind_err (getitem d1 15) (\<lambda>s15.
      bind_err (getitem d1 16) (\<lambda>s16.
      bind_err (getitem d1 17) (\<lambda>s17.
      bind_err (getitem d1 18) (\<lambda>s18.
      bind_err (getitem d1 19) (\<lambda>s19.
      bind_err (getitem d1 20) (\<lambda>s20.
      bind_err (getitem d1 21) (\<lambda>s21.
      bind_err (getitem d1 22) (\<lambda>s22.
      bind_err (getitem d1 23) (\<lambda>s23.
      bind_err (getitem d1 24) (\<lambda>s24.
      bind_err (getitem d1 25) (\<lambda>s25.
      bind_err (getitem d1 26) (\<lambda>s26.
      bind_err (getitem d1 27) (\<lambda>s27.
      bind_err (getitem d1 28) (\<lambda>s28.
      bind_err (getitem d1 29) (\<lambda>s29.
      bind_err (py_truediv (clamp s29) 4096) (\<lambda>food_used.
      bind_err (getitem d1 30) (\<lambda>s30.
      bind_err (py_truediv (clamp s30) 4096) (\<lambda>food_made.
      bind_err (getitem d1 31) (\<lambda>s31.
      bind_err (getitem d1 32) (\<lambda>s32.
      bind_err (if build \<ge> 26490 then clamp_some (getitem d1 33) else Inr None) (\<lambda>ff_minerals_lost_army.
      bind_err (if build \<ge> 26490 then clamp_some (getitem d1 34) else Inr None) (\<lambda>ff_minerals_lost_economy.
      bind_err (if build \<ge> 26490 then clamp_some (getitem d1 35) else Inr None) (\<lambda>ff_minerals_lost_technology.
      bind_err (if build \<ge> 26490 then clamp_some (getitem d1 36) else Inr None) (\<lambda>ff_vespene_lost_army.
      bind_err (if build \<ge> 26490 then clamp_some (getitem d1 37) else Inr None) (\<lambda>ff_vespene_lost_economy.
      bind_err (if build \<ge> 26490 then clamp_some (getitem d1 38) else Inr None) (\<lambda>ff_vespene_lost_technology.
      Inr \<lparr> frame = frame base, second = second base, name = name base,
            stats_pid = d0,
            stats_player = None,
            stats = d1,
            minerals_current = clamp s0,
            vespene_current = clamp s1,
            minerals_collection_rate = clamp s2,
            vespene_collection_rate = clamp s3,
            workers_active_count = clamp s4,
            minerals_used_in_progress_army = clamp s5,
            minerals_used_in_progress_economy = clamp s6,
            minerals_used_in_progress_technology = clamp s7,
            minerals_used_in_progress = clamp s5 + clamp s6 + clamp s7,
            vespene_used_in_progress_army = clamp s8,
            vespene_used_in_progress_economy = clamp s9,
            vespene_used_in_progress_technology = clamp s10,
            vespene_used_in_progress = clamp s8 + clamp s9 + clamp s10,
            resources_used_in_progress = (clamp s5 + clamp s6 + clamp s7) + (clamp s8 + clamp s9 + clamp s10),
            minerals_used_current_army = clamp s11,
            minerals_used_current_economy = clamp s12,
            minerals_used_current_technology = clamp s13,
            minerals_used_current = clamp s11 + clamp s12 + clamp s13,
            vespene_used_current_army = clamp s14,
            vespene_used_current_economy = clamp s15,
            vespene_used_current_technology = clamp s16,
            vespene_used_current = clamp s14 + clamp s15 + clamp s16,
            resources_used_current = (clamp s11 + clamp s12 + clamp s13) + (clamp s14 + clamp s15 + clamp s16),
            minerals_lost_army = clamp s17,
            minerals_lost_economy = clamp s18,
            minerals_lost_technology = clamp s19,
            minerals_lost = clamp s17 + clamp s18 + clamp s19,
            vespene_lost_army = clamp s20,
            vespene_lost_economy = clamp s21,
            vespene_lost_technology = clamp s22,
            vespene_lost = clamp s20 + clamp s21 + clamp s22,
            resources_lost = (clamp s17 + clamp s18 + clamp s19) + (clamp s20 + clamp s21 + clamp s22),
            minerals_killed_army = clamp s23,
            minerals_killed_economy = clamp s24,
            minerals_killed_technology = clamp s25,
            minerals_killed = clamp s23 + clamp s24 + clamp s25,
            vespene_killed_army = clamp s26,
            vespene_killed_economy = clamp s27,
            vespene_killed_technology = clamp s28,
            vespene_killed = clamp s26 + clamp s27 + clamp s28,
            resources_killed = (clamp s23 + clamp s24 + clamp s25) + (clamp s26 + clamp s27 + clamp s28),
            food_used = food_used,
            food_made = food_made,
            minerals_used_active_forces = clamp s31,
            vespene_used_active_forces = clamp s32,
            ff_minerals_lost_army = ff_minerals_lost_army,
            ff_minerals_lost_economy = ff_minerals_lost_economy,
            ff_minerals_lost_technology = ff_minerals_lost_technology,
            ff_vespene_lost_army = ff_vespene_lost_army,
            ff_vespene_lost_economy = ff_vespene_lost_economy,
            ff_vespene_lost_technology = ff_vespene_lost_technology \<rparr>))))))))))))))))))))))))))))))))))))))))))"

subsection \<open>UnitPositionsEvent\<close>

text \<open>
  \<open>range(0, n, 3)\<close> is the list of the multiples of 3 below \<open>n\<close>. The loop body reads
  \<open>items[i]\<close>, \<open>items[i + 1]\<close> and \<open>items[i + 2]\<close>, each of which raises \<open>IndexError\<close> past
  the end of the list, and appends to \<open>positions\<close>; the loop state is the running
  \<open>unit_index\<close> and the list built so far.
\<close>

definition range3 :: "nat \<Rightarrow> nat list" where
  "range3 n = map (\<lambda>j. 3 * j) [0..<(n + 2) div 3]"

fun positions_loop ::
  "int list \<Rightarrow> int \<Rightarrow> nat list \<Rightarrow> int \<times> (int \<times> int \<times> int) list
     \<Rightarrow> error + int \<times> (int \<times> int \<times> int) list" where
  "positions_loop items build [] (unit_index, positions) = Inr (unit_index, positions)"
| "positions_loop items build (i # rest) (unit_index, positions) =
     bind_err (getitem items i) (\<lambda>d.
       let unit_index = unit_index + d
       in bind_err (getitem items (i + 1)) (\<lambda>x.
            bind_err (getitem items (i + 2)) (\<lambda>y.
              let (x, y) = (if build < 27950 then (x * 4, y * 4) else (x, y))
              in positions_loop items build rest
                   (unit_index, positions @ [(unit_index, (x, y))]))))"

record UnitPositionsEvent = TrackerEvent +
  first_unit_index :: int
  items :: "int list"
  units :: "Unit \<rightharpoonup> int \<times> int"
  positions :: "(int \<times> int \<times> int) list"

fun UnitPositionsEvent_init ::
  "int \<Rightarrow> int \<times> int list \<Rightarrow> int \<Rightarrow> error + UnitPositionsEvent" where
  "UnitPositionsEvent_init frames (d0, d1) build =
     (let base = TrackerEvent_init ''UnitPositionsEvent'' frames
      in bind_err (positions_loop d1 build (range3 (length d1)) (d0, []))
           (\<lambda>(unit_index, ps).
              Inr \<lparr> frame = frame base, second = second base, name = name base,
                    first_unit_index = d0,
                    items = d1,
                    units = Map.empty,
                    positions = ps \<rparr>))"

text \<open>
  The properties \<open>UnitPositionsEvent.player\<close> and \<open>UnitPositionsEvent.pid\<close>: both
  \<open>return -1\<close>.
\<close>

definition UnitPositionsEvent_player :: "UnitPositionsEvent \<Rightarrow> int" where
  "UnitPositionsEvent_player e = - 1"

definition UnitPositionsEvent_pid :: "UnitPositionsEvent \<Rightarrow> int" where
  "UnitPositionsEvent_pid e = - 1"

subsection \<open>The position decoder as the specification words it\<close>

text \<open>
  The specification's coordinate scale (section 4.2) and the \<open>i\<close>-th entry of its position
  decoder (section 4.5): the unit index is \<open>first_unit_index\<close> plus the sum of the first
  elements of the windows \<open>0..i\<close>, the coordinates are the second and third element of
  window \<open>i\<close> times the scale. The loop of the source is compared with it below.
\<close>

definition coord_scale :: "int \<Rightarrow> int" where
  "coord_scale build = (if build < 27950 then 4 else 1)"

definition window_entry :: "int \<Rightarrow> int list \<Rightarrow> int \<Rightarrow> nat \<Rightarrow> int \<times> int \<times> int" where
  "window_entry first its build i =
     (first + (\<Sum>j = 0..<Suc i. its ! (3 * j)),
      its ! (3 * i + 1) * coord_scale build,
      its ! (3 * i + 2) * coord_scale build)"

section \<open>Properties\<close>

subsection \<open>Auxiliary facts\<close>

lemma bind_err_Inr_iff: "bind_err m f = Inr y \<longleftrightarrow> (\<exists>v. m = Inr v \<and> f v = Inr y)"
  by (cases m) (simp_all add: bind_err_def)

lemma bind_err_simps [simp]: "bind_err (Inl e) f = Inl e" "bind_err (Inr v) f = f v"
  by (simp_all add: bind_err_def)

lemma decode_compose:
  assumes "0 \<le> r" "r < 2 ^ 18"
  shows "decode (push_bit 18 i OR r) = (i, r)"
proof -
  have d: "drop_bit 18 r = 0"
    using assms by (simp add: drop_bit_eq_div)
  have t: "take_bit 18 r = r"
    using assms by (simp add: take_bit_int_eq_self)
  have m: "(262143::int) = mask 18"
    by (simp add: mask_eq_exp_minus_1)
  have "drop_bit 18 (push_bit 18 i OR r) = i"
    by (simp add: d drop_bit_push_bit)
  moreover have "(push_bit 18 i OR r) AND 262143 = r"
    unfolding m by (simp flip: take_bit_eq_mask add: t take_bit_push_bit)
  ultimately show ?thesis by (simp add: decode_def)
qed

subsection \<open>Unit identity\<close>

text \<open>
  Claim C1. For every index in \<open>[0, 2^14)\<close> and recycle in \<open>[0, 2^18)\<close>, splitting the
  unit id that a unit event constructor stores, by \<open>decode\<close>, gives back the pair
  (index, recycle). This holds for the \<open>unit_id\<close> of UnitBornEvent, UnitDiedEvent,
  UnitInitEvent, UnitDoneEvent, UnitOwnerChangeEvent and UnitTypeChangeEvent; the three
  constructors that decode a type name are considered where they return an event.
\<close>

theorem unit_id_roundtrip:
  assumes "0 \<le> index" "index < 2 ^ 14" "0 \<le> recycle" "recycle < 2 ^ 18"
  shows "(\<forall>e. UnitBornEvent_init frames (index, recycle, tn, cp, up, x, y) build = Inr e
            \<longrightarrow> decode (born_unit_id e) = (index, recycle))
       \<and> decode (died_unit_id (UnitDiedEvent_init frames (index, recycle, kp, x, y, ki, kr) build))
           = (index, recycle)
       \<and> (\<forall>e. UnitInitEvent_init frames (index, recycle, tn, cp, up, x, y) build = Inr e
            \<longrightarrow> decode (init_unit_id e) = (index, recycle))
       \<and> decode (done_unit_id (UnitDoneEvent_init frames (index, recycle) build)) = (index, recycle)
       \<and> decode (owner_unit_id (UnitOwnerChangeEvent_init frames (index, recycle, cp, up) build))
           = (index, recycle)
       \<and> (\<forall>e. UnitTypeChangeEvent_init frames (index, recycle, tn) build = Inr e
            \<longrightarrow> decode (change_unit_id e) = (index, recycle))"
  using decode_compose [OF assms(3,4), of index]
  by (auto simp add: Let_def bind_err_Inr_iff)

theorem unit_id_roundtrip_witness:
  "(0::int) \<le> 5 \<and> (5::int) < 2 ^ 14 \<and> (0::int) \<le> 7 \<and> (7::int) < 2 ^ 18
   \<and> (\<exists>e. UnitBornEvent_init 100 (5, 7, [0x4D, 0x61], 1, 2, 10, 20) 30000 = Inr e
          \<and> decode (born_unit_id e) = (5, 7))
   \<and> decode (died_unit_id (UnitDiedEvent_init 100 (5, 7, Some 1, 10, 20, 3, 4) 30000)) = (5, 7)
   \<and> (\<exists>e. UnitInitEvent_init 100 (5, 7, [0x4D, 0x61], 1, 2, 10, 20) 30000 = Inr e
          \<and> decode (init_unit_id e) = (5, 7))
   \<and> decode (done_unit_id (UnitDoneEvent_init 100 (5, 7) 30000)) = (5, 7)
   \<and> decode (owner_unit_id (UnitOwnerChangeEvent_init 100 (5, 7, 1, 2) 30000)) = (5, 7)
   \<and> (\<exists>e. UnitTypeChangeEvent_init 100 (5, 7, [0x4D, 0x61]) 30000 = Inr e
          \<and> decode (change_unit_id e) = (5, 7))"
  using unit_id_roundtrip [of 5 7 100 "[0x4D, 0x61]" 1 2 10 20 30000 "Some 1" 3 4]
  by (simp add: Let_def)

subsection \<open>Coordinates\<close>

text \<open>
  Claim C2. In a UnitBornEvent, a UnitInitEvent and a UnitDiedEvent the stored \<open>x\<close>, \<open>y\<close>
  and \<open>location\<close> are four times the raw coordinates of the record when
  \<open>build < 27950\<close>, and the raw coordinates themselves when \<open>build \<ge> 27950\<close>.
\<close>

theorem coordinates_scaled:
  "(\<forall>e. UnitBornEvent_init frames (d0, d1, d2, d3, d4, raw_x, raw_y) build = Inr e \<longrightarrow>
      (build < 27950 \<longrightarrow> born_x e = 4 * raw_x \<and> born_y e = 4 * raw_y
                          \<and> born_location e = (4 * raw_x, 4 * raw_y))
      \<and> (27950 \<le> build \<longrightarrow> born_x e = raw_x \<and> born_y e = raw_y
                          \<and> born_location e = (raw_x, raw_y)))
   \<and> (\<forall>e. UnitInitEvent_init frames (d0, d1, d2, d3, d4, raw_x, raw_y) build = Inr e \<longrightarrow>
      (build < 27950 \<longrightarrow> init_x e = 4 * raw_x \<and> init_y e = 4 * raw_y
                          \<and> init_location e = (4 * raw_x, 4 * raw_y))
      \<and> (27950 \<le> build \<longrightarrow> init_x e = raw_x \<and> init_y e = raw_y
                          \<and> init_location e = (raw_x, raw_y)))
   \<and> (\<forall>e. UnitDiedEvent_init frames (d0, d1, k, raw_x, raw_y, d5, d6) build = e \<longrightarrow>
      (build < 27950 \<longrightarrow> died_x e = 4 * raw_x \<and> died_y e = 4 * raw_y
                          \<and> died_location e = (4 * raw_x, 4 * raw_y))
      \<and> (27950 \<le> build \<longrightarrow> died_x e = raw_x \<and> died_y e = raw_y
                          \<and> died_location e = (raw_x, raw_y)))"
  by (auto simp add: Let_def bind_err_Inr_iff)

theorem coordinates_scaled_witness:
  "(\<exists>e. UnitBornEvent_init 100 (5, 7, [0x4D, 0x61], 1, 2, 10, 20) 27949 = Inr e
        \<and> born_x e = 40 \<and> born_y e = 80 \<and> born_location e = (40, 80))
   \<and> (\<exists>e. UnitBornEvent_init 100 (5, 7, [0x4D, 0x61], 1, 2, 10, 20) 27950 = Inr e
        \<and> born_x e = 10 \<and> born_y e = 20 \<and> born_location e = (10, 20))
   \<and> (\<exists>e. UnitInitEvent_init 100 (5, 7, [0x4D, 0x61], 1, 2, 10, 20) 27949 = Inr e
        \<and> init_x e = 40 \<and> init_y e = 80 \<and> init_location e = (40, 80))
   \<and> (\<exists>e. UnitInitEvent_init 100 (5, 7, [0x4D, 0x61], 1, 2, 10, 20) 27950 = Inr e
        \<and> init_x e = 10 \<and> init_y e = 20 \<and> init_location e = (10, 20))
   \<and> died_location (UnitDiedEvent_init 100 (5, 7, Some 1, 10, 20, 3, 4) 27949) = (40, 80)
   \<and> died_location (UnitDiedEvent_init 100 (5, 7, Some 1, 10, 20, 3, 4) 27950) = (10, 20)"
  using coordinates_scaled [of 100 5 7 "[0x4D, 0x61]" 1 2 10 20 27949 "Some 1" 3 4]
        coordinates_scaled [of 100 5 7 "[0x4D, 0x61]" 1 2 10 20 27950 "Some 1" 3 4]
  by (simp add: Let_def)

subsection \<open>Killing unit\<close>

text \<open>
  Claim C6. In a UnitDiedEvent the attributes \<open>killing_unit_index\<close>,
  \<open>killing_unit_recycle\<close> and \<open>killing_unit_id\<close> are \<open>None\<close> when \<open>build < 27950\<close>. When
  \<open>build \<ge> 27950\<close> the index and the recycle are \<open>data[5]\<close> and \<open>data[6]\<close>, and
  \<open>killing_unit_id\<close> is \<open>(killing_unit_index << 18) | killing_unit_recycle\<close> when the index
  is not zero and stays \<open>None\<close> when it is zero.
\<close>

theorem killing_unit_fields:
  "(build < 27950 \<longrightarrow>
      died_killing_unit_index (UnitDiedEvent_init frames (d0, d1, d2, d3, d4, d5, d6) build) = None
      \<and> died_killing_unit_recycle (UnitDiedEvent_init frames (d0, d1, d2, d3, d4, d5, d6) build) = None
      \<and> died_killing_unit_id (UnitDiedEvent_init frames (d0, d1, d2, d3, d4, d5, d6) build) = None)
   \<and> (27950 \<le> build \<longrightarrow>
      died_killing_unit_index (UnitDiedEvent_init frames (d0, d1, d2, d3, d4, d5, d6) build) = Some d5
      \<and> died_killing_unit_recycle (UnitDiedEvent_init frames (d0, d1, d2, d3, d4, d5, d6) build) = Some d6
      \<and> (d5 \<noteq> 0 \<longrightarrow>
           died_killing_unit_id (UnitDiedEvent_init frames (d0, d1, d2, d3, d4, d5, d6) build)
             = Some (push_bit 18 d5 OR d6))
      \<and> (d5 = 0 \<longrightarrow>
           died_killing_unit_id (UnitDiedEvent_init frames (d0, d1, d2, d3, d4, d5, d6) build) = None))"
  by (simp add: Let_def)

theorem killing_unit_fields_witness:
  "died_killing_unit_id (UnitDiedEvent_init 100 (5, 7, Some 1, 10, 20, 3, 4) 27949) = None
   \<and> died_killing_unit_index (UnitDiedEvent_init 100 (5, 7, Some 1, 10, 20, 3, 4) 27949) = None
   \<and> died_killing_unit_index (UnitDiedEvent_init 100 (5, 7, Some 1, 10, 20, 3, 4) 27950) = Some 3
   \<and> died_killing_unit_recycle (UnitDiedEvent_init 100 (5, 7, Some 1, 10, 20, 3, 4) 27950) = Some 4
   \<and> died_killing_unit_id (UnitDiedEvent_init 100 (5, 7, Some 1, 10, 20, 3, 4) 27950) = Some 786436
   \<and> died_killing_unit_index (UnitDiedEvent_init 100 (5, 7, Some 1, 10, 20, 0, 4) 27950) = Some 0
   \<and> died_killing_unit_id (UnitDiedEvent_init 100 (5, 7, Some 1, 10, 20, 0, 4) 27950) = None"
  using killing_unit_fields [of 27949 100 5 7 "Some 1" 10 20 3 4]
        killing_unit_fields [of 27950 100 5 7 "Some 1" 10 20 3 4]
        killing_unit_fields [of 27950 100 5 7 "Some 1" 10 20 0 4]
  by simp

subsection \<open>Frames\<close>

text \<open>
  Claim C8. The stored frame is the raw frame value modulo \<open>2^32\<close>; a raw value of
  \<open>2^32 + 7\<close> is stored as 7.
\<close>

theorem frame_wraps:
  "frame (TrackerEvent_init cls frames) = frames mod 2 ^ 32
   \<and> frame (TrackerEvent_init cls (2 ^ 32 + 7)) = 7"
  by (simp add: TrackerEvent_init_def Let_def)

subsection \<open>Derived accessors\<close>

text \<open>
  Claim C9. The \<open>pid\<close> of a UnitBornEvent is the id of the controlling player
  (\<open>control_pid\<close>, \<open>data[3]\<close>) and the \<open>pid\<close> of a UnitInitEvent is the id of the player
  paying upkeep (\<open>upkeep_pid\<close>, \<open>data[4]\<close>). Each accessor reads the stored attribute, so
  it follows a later change of that attribute.
\<close>

theorem pid_accessors:
  "(\<forall>e. UnitBornEvent_init frames (d0, d1, d2, control_pid, upkeep_pid, d5, d6) build = Inr e
        \<longrightarrow> UnitBornEvent_pid e = control_pid)
   \<and> (\<forall>e. UnitInitEvent_init frames (d0, d1, d2, control_pid, upkeep_pid, d5, d6) build = Inr e
        \<longrightarrow> UnitInitEvent_pid e = upkeep_pid)
   \<and> UnitBornEvent_pid b = born_control_pid b
   \<and> UnitInitEvent_pid i = init_upkeep_pid i
   \<and> UnitBornEvent_pid (b\<lparr>born_control_pid := p\<rparr>) = p
   \<and> UnitInitEvent_pid (i\<lparr>init_upkeep_pid := p\<rparr>) = p"
  by (auto simp add: Let_def bind_err_Inr_iff UnitBornEvent_pid_def UnitInitEvent_pid_def)

theorem pid_accessors_witness:
  "(\<exists>e. UnitBornEvent_init 100 (5, 7, [0x4D, 0x61], 1, 2, 10, 20) 30000 = Inr e
        \<and> UnitBornEvent_pid e = 1)
   \<and> (\<exists>e. UnitInitEvent_init 100 (5, 7, [0x4D, 0x61], 1, 2, 10, 20) 30000 = Inr e
        \<and> UnitInitEvent_pid e = 2)"
  using pid_accessors [of 100 5 7 "[0x4D, 0x61]" 1 2 10 20 30000]
  by (simp add: Let_def)

text \<open>
  Claim C10. Whatever a UnitPositionsEvent holds, its \<open>player\<close> accessor and its \<open>pid\<close>
  accessor both return \<open>-1\<close>.
\<close>

theorem positions_event_no_player:
  "UnitPositionsEvent_player e = - 1 \<and> UnitPositionsEvent_pid e = - 1"
  by (simp add: UnitPositionsEvent_player_def UnitPositionsEvent_pid_def)

subsection \<open>Positions\<close>

lemma positions_loop_append:
  "positions_loop its build (xs @ ys) s =
     bind_err (positions_loop its build xs s) (positions_loop its build ys)"
proof (induction xs arbitrary: s)
  case Nil
  show ?case by (cases s) simp
next
  case (Cons i xs)
  show ?case
    by (cases s) (simp add: Cons.IH getitem_def Let_def split: prod.splits)
qed

text \<open>
  The loop over the windows \<open>m..<k\<close>, all of them inside the list, started with the
  running index \<open>u\<close> and the entries \<open>acc\<close>.
\<close>

lemma positions_loop_windows:
  assumes "3 * k \<le> length its"
  shows "m \<le> k \<Longrightarrow>
         positions_loop its build (map (\<lambda>j. 3 * j) [m..<k]) (u, acc) =
           Inr (u + (\<Sum>j = m..<k. its ! (3 * j)),
                acc @ map (\<lambda>i. (u + (\<Sum>j = m..<Suc i. its ! (3 * j)),
                                 its ! (3 * i + 1) * coord_scale build,
                                 its ! (3 * i + 2) * coord_scale build)) [m..<k])"
proof (induction "k - m" arbitrary: m u acc)
  case 0
  then show ?case by simp
next
  case (Suc d)
  then have lt: "m < k" and d: "d = k - Suc m" and le: "Suc m \<le> k" by auto
  have in_range: "3 * m < length its" "3 * m + 1 < length its" "3 * m + 2 < length its"
    using lt assms by auto
  have split: "[m..<k] = m # [Suc m..<k]"
    using lt by (simp add: upt_conv_Cons)
  have sum_x: "\<And>x. Suc m \<le> x \<Longrightarrow>
      its ! (3 * m) + (\<Sum>j = Suc m..<x. its ! (3 * j)) = (\<Sum>j = m..<x. its ! (3 * j))"
    by (simp add: sum.atLeast_Suc_lessThan)
  have first_step:
    "positions_loop its build (map (\<lambda>j. 3 * j) (m # [Suc m..<k])) (u, acc) =
       positions_loop its build (map (\<lambda>j. 3 * j) [Suc m..<k])
         (u + its ! (3 * m),
          acc @ [(u + its ! (3 * m),
                  its ! (3 * m + 1) * coord_scale build,
                  its ! (3 * m + 2) * coord_scale build)])"
    using in_range by (simp add: getitem_def Let_def coord_scale_def)
  have entries:
    "map (\<lambda>i. (u + its ! (3 * m) + (\<Sum>j = Suc m..<Suc i. its ! (3 * j)),
                 its ! (3 * i + 1) * coord_scale build,
                 its ! (3 * i + 2) * coord_scale build)) [Suc m..<k] =
     map (\<lambda>i. (u + (\<Sum>j = m..<Suc i. its ! (3 * j)),
                 its ! (3 * i + 1) * coord_scale build,
                 its ! (3 * i + 2) * coord_scale build)) [Suc m..<k]"
  proof (rule map_cong [OF refl])
    fix i assume "i \<in> set [Suc m..<k]"
    then have "Suc m \<le> Suc i" by simp
    from sum_x [OF this] show
      "(u + its ! (3 * m) + (\<Sum>j = Suc m..<Suc i. its ! (3 * j)),
         its ! (3 * i + 1) * coord_scale build, its ! (3 * i + 2) * coord_scale build) =
       (u + (\<Sum>j = m..<Suc i. its ! (3 * j)),
         its ! (3 * i + 1) * coord_scale build, its ! (3 * i + 2) * coord_scale build)"
      by (simp only: add.assoc)
  qed
  have total: "u + its ! (3 * m) + (\<Sum>j = Suc m..<k. its ! (3 * j)) = u + (\<Sum>j = m..<k. its ! (3 * j))"
    using sum_x [OF le] by (simp only: add.assoc)
  have head: "(\<Sum>j = m..<Suc m. its ! (3 * j)) = its ! (3 * m)"
    by simp
  show ?case
    unfolding split first_step Suc.hyps(1) [OF d le] entries total
    by (simp only: list.map head append_assoc append.simps)
qed

lemma range3_multiple: "range3 (3 * k) = map (\<lambda>j. 3 * j) [0..<k]"
proof -
  have "(3 * k + 2) div 3 = k" by presburger
  then show ?thesis by (simp only: range3_def)
qed

lemma positions_loop_multiple:
  assumes "length its = 3 * k"
  shows "positions_loop its build (range3 (length its)) (first, []) =
          Inr (first + (\<Sum>j = 0..<k. its ! (3 * j)), map (window_entry first its build) [0..<k])"
  using positions_loop_windows [of k its 0 build first "[]"] assms
  by (simp add: range3_multiple window_entry_def)

text \<open>
  Claim C3. A UnitPositionsEvent built from \<open>first_unit_index\<close> and a flat list of length
  \<open>3k\<close> has exactly \<open>k\<close> positions, in input order; the \<open>i\<close>-th one carries
  \<open>first_unit_index\<close> plus the sum of the first elements of the windows \<open>0..i\<close>, and the
  second and third element of window \<open>i\<close>, times 4 when \<open>build < 27950\<close> and unchanged
  otherwise. With \<open>first_unit_index = 100\<close> and the list \<open>[5, 10, 20, 3, 15, 25]\<close> the
  positions are \<open>[(105, (10, 20)), (108, (15, 25))]\<close> from build 27950 on and
  \<open>[(105, (40, 80)), (108, (60, 100))]\<close> below it.
\<close>

theorem positions_decoded:
  "(length its = 3 * k \<longrightarrow>
      (\<exists>e. UnitPositionsEvent_init frames (first, its) build = Inr e
           \<and> length (positions e) = k
           \<and> positions e = map (window_entry first its build) [0..<k]))
   \<and> (27950 \<le> build \<longrightarrow>
        map_sum id positions (UnitPositionsEvent_init frames (100, [5, 10, 20, 3, 15, 25]) build)
          = Inr [(105, (10, 20)), (108, (15, 25))])
   \<and> (build < 27950 \<longrightarrow>
        map_sum id positions (UnitPositionsEvent_init frames (100, [5, 10, 20, 3, 15, 25]) build)
          = Inr [(105, (40, 80)), (108, (60, 100))])"
proof (intro conjI impI)
  assume "length its = 3 * k"
  from positions_loop_multiple [OF this]
  show "\<exists>e. UnitPositionsEvent_init frames (first, its) build = Inr e
           \<and> length (positions e) = k
           \<and> positions e = map (window_entry first its build) [0..<k]"
    by (simp add: Let_def)
next
  assume "27950 \<le> build"
  then show "map_sum id positions (UnitPositionsEvent_init frames (100, [5, 10, 20, 3, 15, 25]) build)
          = Inr [(105, (10, 20)), (108, (15, 25))]"
    by (simp add: Let_def range3_def getitem_def upt_rec)
next
  assume "build < 27950"
  then show "map_sum id positions (UnitPositionsEvent_init frames (100, [5, 10, 20, 3, 15, 25]) build)
          = Inr [(105, (40, 80)), (108, (60, 100))]"
    by (simp add: Let_def range3_def getitem_def upt_rec)
qed

theorem positions_decoded_witness:
  "length [7, 1, 2, 4, 3, 9, 0, 8, 6 :: int] = 3 * 3
   \<and> (\<exists>e. UnitPositionsEvent_init 0 (50, [7, 1, 2, 4, 3, 9, 0, 8, 6]) 27949 = Inr e
         \<and> length (positions e) = 3
         \<and> positions e = [(57, (4, 8)), (61, (12, 36)), (61, (32, 24))])
   \<and> map_sum id positions (UnitPositionsEvent_init 0 (100, [5, 10, 20, 3, 15, 25]) 27950)
        = Inr [(105, (10, 20)), (108, (15, 25))]
   \<and> map_sum id positions (UnitPositionsEvent_init 0 (100, [5, 10, 20, 3, 15, 25]) 27949)
        = Inr [(105, (40, 80)), (108, (60, 100))]"
proof -
  have w: "map (window_entry 50 [7, 1, 2, 4, 3, 9, 0, 8, 6] 27949) [0..<3]
             = [(57, (4, 8)), (61, (12, 36)), (61, (32, 24))]"
    by (simp add: window_entry_def coord_scale_def upt_rec numeral_eq_Suc)
  show ?thesis
    using positions_decoded [of "[7, 1, 2, 4, 3, 9, 0, 8, 6]" 3 0 50 27949]
          positions_decoded [of "[5, 10, 20, 3, 15, 25]" 2 0 100 27950]
    unfolding w by simp
qed

text \<open>
  Claim C4, as the source has it. A list whose length is not a multiple of 3 makes the last
  round of the loop read past the end: the constructor raises \<open>IndexError\<close>, whatever the
  other arguments are, and no other exception. The module has no \<open>MalformedRecord\<close>.
\<close>

theorem positions_not_multiple_of_3:
  assumes "length its mod 3 \<noteq> 0"
  shows "UnitPositionsEvent_init frames (first, its) build = Inl IndexError"
proof -
  define q where "q = length its div 3"
  have len: "3 * q < length its" "length its < 3 * q + 3"
    using assms unfolding q_def by presburger+
  have r: "range3 (length its) = map (\<lambda>j. 3 * j) [0..<q] @ [3 * q]"
  proof -
    have "(length its + 2) div 3 = Suc q" using len by presburger
    then show ?thesis by (simp add: range3_def)
  qed
  have "positions_loop its build (range3 (length its)) (first, []) = Inl IndexError"
    unfolding r positions_loop_append
    using positions_loop_windows [of q its 0 build first "[]"] len
    by (simp add: getitem_def Let_def)
  then show ?thesis by (simp add: Let_def)
qed

theorem positions_not_multiple_of_3_witness:
  "length [5, 10, 20, 3 :: int] mod 3 \<noteq> 0
   \<and> UnitPositionsEvent_init 0 (100, [5, 10, 20, 3]) 30000 = Inl IndexError
   \<and> length [5, 10 :: int] mod 3 \<noteq> 0
   \<and> UnitPositionsEvent_init 0 (100, [5, 10]) 20000 = Inl IndexError"
  using positions_not_multiple_of_3 [of "[5, 10, 20, 3]" 0 100 30000]
        positions_not_multiple_of_3 [of "[5, 10]" 0 100 20000]
  by simp

text \<open>
  The claim C4 as the specification states it fails on the one-element list \<open>[5]\<close>: the
  constructor raises \<open>IndexError\<close>, not \<open>MalformedRecord\<close>.
\<close>

theorem positions_malformed_counterexample:
  "length [5 :: int] mod 3 \<noteq> 0
   \<and> UnitPositionsEvent_init 0 (100, [5]) 30000 \<noteq> Inl MalformedRecord
   \<and> UnitPositionsEvent_init 0 (100, [5]) 30000 = Inl IndexError"
  by (simp add: Let_def range3_def getitem_def upt_rec)

subsection \<open>Friendly fire\<close>

lemma bind_err_InrE:
  assumes "bind_err m f = Inr y"
  obtains v where "m = Inr v" "f v = Inr y"
  using assms by (auto simp add: bind_err_Inr_iff)

lemma ff_slot:
  assumes "(if 26490 \<le> (build::int) then clamp_some (getitem sts i) else Inr None) = Inr v"
  shows "(build < 26490 \<longrightarrow> v = None)
       \<and> (26490 \<le> build \<longrightarrow> i < length sts \<and> v = Some (max 0 (sts ! i)))"
  using assms
  by (auto simp add: clamp_some_def clamp_def getitem_def bind_err_Inr_iff split: if_splits)

text \<open>
  Claim C5. In a PlayerStatsEvent the six friendly-fire attributes are \<open>None\<close> (not zero)
  when \<open>build < 26490\<close>, and when \<open>build \<ge> 26490\<close> each is \<open>max(0, s)\<close> of its slot
  \<open>s\<close> of the stats list, slots 33 to 38.
\<close>

theorem friendly_fire_fields:
  assumes "PlayerStatsEvent_init frames (pid, sts) build = Inr e"
  shows "(build < 26490 \<longrightarrow>
            ff_minerals_lost_army e = None \<and> ff_minerals_lost_economy e = None
          \<and> ff_minerals_lost_technology e = None \<and> ff_vespene_lost_army e = None
          \<and> ff_vespene_lost_economy e = None \<and> ff_vespene_lost_technology e = None)
       \<and> (26490 \<le> build \<longrightarrow>
            ff_minerals_lost_army e = Some (max 0 (sts ! 33))
          \<and> ff_minerals_lost_economy e = Some (max 0 (sts ! 34))
          \<and> ff_minerals_lost_technology e = Some (max 0 (sts ! 35))
          \<and> ff_vespene_lost_army e = Some (max 0 (sts ! 36))
          \<and> ff_vespene_lost_economy e = Some (max 0 (sts ! 37))
          \<and> ff_vespene_lost_technology e = Some (max 0 (sts ! 38)))"
proof -
  from assms obtain a b c d f g where
    slots: "(if 26490 \<le> build then clamp_some (getitem sts 33) else Inr None) = Inr a"
           "(if 26490 \<le> build then clamp_some (getitem sts 34) else Inr None) = Inr b"
           "(if 26490 \<le> build then clamp_some (getitem sts 35) else Inr None) = Inr c"
           "(if 26490 \<le> build then clamp_some (getitem sts 36) else Inr None) = Inr d"
           "(if 26490 \<le> build then clamp_some (getitem sts 37) else Inr None) = Inr f"
           "(if 26490 \<le> build then clamp_some (getitem sts 38) else Inr None) = Inr g"
    and fields: "ff_minerals_lost_army e = a" "ff_minerals_lost_economy e = b"
           "ff_minerals_lost_technology e = c" "ff_vespene_lost_army e = d"
           "ff_vespene_lost_economy e = f" "ff_vespene_lost_technology e = g"
    unfolding PlayerStatsEvent_init.simps Let_def
    by (elim bind_err_InrE) auto
  show ?thesis
    using slots [THEN ff_slot] unfolding fields by simp
qed

lemma food_of_8192: "py_truediv (clamp 8192) 4096 = Inr 2"
  by code_simp

theorem friendly_fire_fields_witness:
  "(\<exists>e. PlayerStatsEvent_init 160 (1, [50, 0, 600, 0, 12, 0, 50, 0, 0, 0, 0, 0, 600, 0, 0, 0, 0,
            0, 0, 0, 0, 0, 0, 0, 0, 0, 0, 0, 0, 8192, 8192, 0, 0]) 26489 = Inr e
        \<and> ff_minerals_lost_army e = None \<and> ff_vespene_lost_technology e = None)
   \<and> (\<exists>e. PlayerStatsEvent_init 160 (1, [50, 0, 600, 0, 12, 0, 50, 0, 0, 0, 0, 0, 600, 0, 0, 0, 0,
            0, 0, 0, 0, 0, 0, 0, 0, 0, 0, 0, 0, 8192, 8192, 0, 0, 75, - 3, 0, 25, 0, - 1]) 26490 = Inr e
        \<and> ff_minerals_lost_army e = Some 75 \<and> ff_minerals_lost_economy e = Some 0
        \<and> ff_vespene_lost_army e = Some 25 \<and> ff_vespene_lost_technology e = Some 0)"
proof -
  obtain e1 where e1: "PlayerStatsEvent_init 160 (1, [50, 0, 600, 0, 12, 0, 50, 0, 0, 0, 0, 0, 600, 0, 0, 0, 0,
            0, 0, 0, 0, 0, 0, 0, 0, 0, 0, 0, 0, 8192, 8192, 0, 0]) 26489 = Inr e1"
    by (simp add: getitem_def food_of_8192 Let_def)
  obtain e2 where e2: "PlayerStatsEvent_init 160 (1, [50, 0, 600, 0, 12, 0, 50, 0, 0, 0, 0, 0, 600, 0, 0, 0, 0,
            0, 0, 0, 0, 0, 0, 0, 0, 0, 0, 0, 0, 8192, 8192, 0, 0, 75, - 3, 0, 25, 0, - 1]) 26490 = Inr e2"
    by (simp add: getitem_def food_of_8192 Let_def clamp_some_def)
  show ?thesis
    using friendly_fire_fields [OF e1] friendly_fire_fields [OF e2] e1 e2
    by simp
qed

subsection \<open>Seconds\<close>

text \<open>
  The rounding stays on the grid: below \<open>2^45\<close> every multiple of \<open>1/128\<close> is a double, so
  a value between two of them is rounded to a double between them.
\<close>

lemma f64_exponent_le:
  assumes "0 < q"
  shows "power_int 2 (f64_exponent q) \<le> q"
proof -
  obtain a b where ab: "quotient_of q = (a, b)"
    by (cases "quotient_of q")
  have b: "0 < b"
    using quotient_of_denom_pos [OF ab] .
  have q: "q = of_int a / of_int b"
    using quotient_of_div [OF ab] .
  have a: "0 < a"
    using assms b unfolding q by (simp add: zero_less_divide_iff)
  define k where "k = bitlen a - bitlen b"
  have e: "f64_exponent q = (if power_int 2 k \<le> q then k else k - 1)"
    using assms ab by (simp add: f64_exponent_def k_def Let_def)
  have la1: "1 \<le> bitlen a"
    using a bitlen_eq_zero_iff [of a] bitlen_nonneg [of a] by linarith
  have "(2::int) ^ nat (bitlen a - 1) \<le> a"
    using bitlen_bounds [OF a] by simp
  then have la: "(2::rat) ^ nat (bitlen a - 1) \<le> of_int a"
    by (metis of_int_le_iff of_int_numeral of_int_power)
  have "b < (2::int) ^ nat (bitlen b)"
    using bitlen_bounds [OF b] by simp
  then have ub: "of_int b \<le> (2::rat) ^ nat (bitlen b)"
    by (metis less_imp_le of_int_le_iff of_int_numeral of_int_power)
  have "power_int (2::rat) (k - 1) = power_int 2 ((bitlen a - 1) - bitlen b)"
    by (simp add: k_def algebra_simps)
  also have "\<dots> = power_int 2 (bitlen a - 1) / power_int 2 (bitlen b)"
    by (rule power_int_diff) simp
  also have "\<dots> = 2 ^ nat (bitlen a - 1) / 2 ^ nat (bitlen b)"
    using la1 bitlen_nonneg [of b] by (simp add: power_int_nonneg_exp)
  also have "\<dots> \<le> of_int a / of_int b"
    using la ub a b by (intro frac_le) simp_all
  finally have "power_int 2 (k - 1) \<le> q"
    unfolding q .
  then show ?thesis
    unfolding e by simp
qed

lemma round_half_even_ge:
  assumes "of_int a \<le> m"
  shows "a \<le> round_half_even m"
proof -
  have "a \<le> \<lfloor>m\<rfloor>"
    using assms by (simp add: le_floor_iff)
  moreover have "\<lfloor>m\<rfloor> \<le> round_half_even m"
    by (simp add: round_half_even_def Let_def)
  ultimately show ?thesis by (rule order_trans)
qed

lemma round_half_even_le:
  assumes "m \<le> of_int b"
  shows "round_half_even m \<le> b"
proof (cases "m = of_int b")
  case True
  then show ?thesis by (simp add: round_half_even_def)
next
  case False
  with assms have "m < of_int b" by simp
  then have "\<lfloor>m\<rfloor> < b" by (simp add: floor_less_iff)
  then show ?thesis by (simp add: round_half_even_def Let_def)
qed

lemma f64_round_grid:
  assumes "0 < q" "q < 2 ^ 45" "of_int a / 128 \<le> q" "q \<le> of_int b / 128"
  shows "of_int a / 128 \<le> f64_round q \<and> f64_round q \<le> of_int b / 128"
proof -
  define e where "e = f64_exponent q"
  have "power_int 2 e \<le> q"
    unfolding e_def by (rule f64_exponent_le [OF assms(1)])
  with assms(2) have "power_int (2::rat) e < power_int 2 45"
    by simp
  then have e45: "e < 45"
    by (rule power_int_le_imp_less_exp [rotated]) simp_all
  define j where "j = nat (45 - e)"
  define P :: rat where "P = 2 ^ j"
  have P: "0 < P" by (simp add: P_def)
  have "e - 52 = - int (7 + j)"
    using e45 by (simp add: j_def)
  then have "power_int (2::rat) (e - 52) = 1 / 2 ^ (7 + j)"
    by (simp only: power_int_minus_divide power_int_of_nat)
  then have u: "power_int (2::rat) (e - 52) = 1 / (128 * P)"
    by (simp add: power_add P_def)
  have fr: "f64_round q = of_int (round_half_even (q * (128 * P))) / (128 * P)"
    using assms(1) by (simp add: f64_round_def Let_def u flip: e_def)
  have "of_int a * P \<le> q * (128 * P)"
    using assms(3) P by (simp add: field_simps)
  then have "of_int (a * 2 ^ j) \<le> q * (128 * P)"
    by (simp add: P_def)
  from round_half_even_ge [OF this]
  have "of_int (a * 2 ^ j) \<le> (of_int (round_half_even (q * (128 * P))) :: rat)"
    by (simp only: of_int_le_iff)
  then have lo: "of_int a * P \<le> of_int (round_half_even (q * (128 * P)))"
    by (simp add: P_def)
  have "q * (128 * P) \<le> of_int b * P"
    using assms(4) P by (simp add: field_simps)
  then have "q * (128 * P) \<le> of_int (b * 2 ^ j)"
    by (simp add: P_def)
  from round_half_even_le [OF this]
  have "(of_int (round_half_even (q * (128 * P))) :: rat) \<le> of_int (b * 2 ^ j)"
    by (simp only: of_int_le_iff)
  then have hi: "of_int (round_half_even (q * (128 * P))) \<le> of_int b * P"
    by (simp add: P_def)
  show ?thesis
    unfolding fr using lo hi P by (simp add: field_simps)
qed

lemma f64_22_4_value: "f64_22_4 = 6305039478318694 / 281474976710656"
  by code_simp

lemma f64_of_int_exact:
  assumes "0 \<le> n" "n < 2 ^ 32"
  shows "f64_of_int n = of_int n"
proof (cases "n = 0")
  case True
  then show ?thesis by (simp add: f64_of_int_def f64_round_def)
next
  case False
  with assms have pos: "0 < (of_int n :: rat)" by simp
  have "n < 2 ^ 45" using assms(2) by simp
  then have lt: "(of_int n :: rat) < 2 ^ 45"
    by (metis of_int_less_iff of_int_numeral of_int_power)
  have "of_int (128 * n) / 128 \<le> f64_round (of_int n)
        \<and> f64_round (of_int n) \<le> of_int (128 * n) / 128"
    by (rule f64_round_grid [OF pos lt]) simp_all
  then show ?thesis by (simp add: f64_of_int_def)
qed

lemma second_of_frame:
  assumes "0 \<le> fr" "fr < 2 ^ 32"
  shows "py_int (f64_div (f64_of_int fr) f64_22_4) = (5 * fr) div 112"
proof (cases "fr = 0")
  case True
  then show ?thesis
    by (simp add: f64_of_int_def f64_div_def f64_round_def py_int_def)
next
  case False
  with assms have fr1: "1 \<le> fr" by simp
  define n where "n = (5 * fr) div 112"
  define r where "r = (5 * fr) mod 112"
  have nr: "5 * fr = 112 * n + r" "0 \<le> r" "r < 112" "0 \<le> n"
    using assms(1) by (simp_all add: n_def r_def)
  have fr32: "fr < 4294967296" using assms(2) by simp
  define q :: rat where "q = of_int fr / f64_22_4"
  have q_eq: "q = of_int (fr * 281474976710656) / of_int 6305039478318694"
    by (simp add: q_def f64_22_4_value)
  have pos: "0 < q"
    unfolding q_eq using fr1 by (simp add: zero_less_divide_iff)
  have "fr * 281474976710656 < 35184372088832 * 6305039478318694"
    using fr32 by simp
  then have lt: "q < 2 ^ 45"
    unfolding q_eq by (simp add: divide_less_eq)
  have "128 * n * 6305039478318694 \<le> 128 * (fr * 281474976710656)"
    using nr by simp
  then have lo: "of_int (128 * n) / 128 \<le> q"
    unfolding q_eq by (simp add: le_divide_eq)
  have "128 * (fr * 281474976710656) \<le> (128 * n + 127) * 6305039478318694"
    using nr fr32 by simp
  then have hi: "q \<le> of_int (128 * n + 127) / 128"
    unfolding q_eq by (simp add: divide_le_eq)
  from f64_round_grid [OF pos lt lo hi]
  have b: "of_int n \<le> f64_round q" "f64_round q < of_int n + 1"
    by simp_all
  then have "\<lfloor>f64_round q\<rfloor> = n"
    by (simp add: floor_eq_iff)
  moreover have "0 \<le> f64_round q"
    using b(1) nr(4) by (meson of_int_0_le_iff order_trans)
  ultimately show ?thesis
    using f64_of_int_exact [OF assms]
    by (simp add: py_int_def f64_div_def q_def n_def)
qed

text \<open>
  Claim C7, as the source has it. The stored \<open>second\<close> is \<open>int(frame / 22.4)\<close>, a Python
  integer: the integer part of the quotient of the wrapped frame counter by 22.4, which is
  \<open>(5 * frame) div 112\<close>. The binary64 division never rounds across an integer.
\<close>

theorem second_truncated:
  "second (TrackerEvent_init cls frames) = (5 * (frames mod 2 ^ 32)) div 112
   \<and> second (TrackerEvent_init cls frames)
       = \<lfloor>(of_int (frame (TrackerEvent_init cls frames)) :: rat) / (224 / 10)\<rfloor>"
proof -
  have "second (TrackerEvent_init cls frames) = (5 * (frames mod 2 ^ 32)) div 112"
    using second_of_frame [of "frames mod 2 ^ 32"]
    by (simp add: TrackerEvent_init_def Let_def)
  moreover have "\<lfloor>(of_int (frames mod 2 ^ 32) :: rat) / (224 / 10)\<rfloor> = (5 * (frames mod 2 ^ 32)) div 112"
  proof -
    have "(of_int (frames mod 2 ^ 32) :: rat) / (224 / 10)
            = of_int (5 * (frames mod 2 ^ 32)) / of_int 112"
      by simp
    then show ?thesis
      by (simp only: floor_divide_of_int_eq)
  qed
  ultimately show ?thesis
    by (simp add: TrackerEvent_init_def Let_def)
qed

text \<open>
  The claim C7 as the specification states it fails at frame 1: the stored second is 0,
  which is neither the double \<open>1 / 22.4\<close> nor the exact quotient.
\<close>

theorem second_not_real_counterexample:
  "of_int (second (TrackerEvent_init ''TrackerEvent'' 1))
     \<noteq> f64_div (f64_of_int (frame (TrackerEvent_init ''TrackerEvent'' 1))) f64_22_4
   \<and> of_int (second (TrackerEvent_init ''TrackerEvent'' 1))
     \<noteq> (of_int (frame (TrackerEvent_init ''TrackerEvent'' 1)) :: rat) / (224 / 10)"
proof -
  have s: "second (TrackerEvent_init ''TrackerEvent'' 1) = 0"
    using second_of_frame [of 1] by (simp add: TrackerEvent_init_def Let_def)
  have f: "frame (TrackerEvent_init ''TrackerEvent'' 1) = 1"
    by (simp add: TrackerEvent_init_def Let_def)
  have "of_int 5 / 128 \<le> f64_round (1 / f64_22_4) \<and> f64_round (1 / f64_22_4) \<le> of_int 6 / 128"
    by (rule f64_round_grid) (simp_all add: f64_22_4_value)
  then have "0 < f64_div (f64_of_int 1) f64_22_4"
    using f64_of_int_exact [of 1] by (simp add: f64_div_def)
  then show ?thesis
    unfolding s f by simp
qed

end
